theory Spec2Isabelle
  imports Main "HOL-Library.Word"
begin

section \<open>Strings\<close>

text \<open>
  A TypeScript string is a sequence of UTF-16 code units; \<open>length\<close>, the regular
  expressions and \<open>trim\<close> all work on code units. String literals of the source are
  written \<open>lit ''...''\<close>.
\<close>

type_synonym code_unit = "16 word"
type_synonym jsstring = "code_unit list"

definition lit :: "string \<Rightarrow> jsstring" where
  "lit cs = map of_char cs"

text \<open>Truthiness of a string value: every string but the empty one.\<close>

definition truthy :: "jsstring \<Rightarrow> bool" where
  "truthy s = (s \<noteq> [])"

text \<open>Truthiness of an optional string property (\<open>undefined\<close> is falsy).\<close>

definition truthy_opt :: "jsstring option \<Rightarrow> bool" where
  "truthy_opt v = (case v of None \<Rightarrow> False | Some s \<Rightarrow> truthy s)"

text \<open>
  \<open>String.prototype.trim\<close> strips WhiteSpace and LineTerminator code units from both
  ends: TAB, LF, VT, FF, CR, SPACE, NBSP, U+1680, U+2000 to U+200A, U+2028, U+2029,
  U+202F, U+205F, U+3000 and the byte order mark U+FEFF.
\<close>

definition is_space :: "code_unit \<Rightarrow> bool" where
  "is_space u = ((0x09 \<le> u \<and> u \<le> 0x0D) \<or> u = 0x20 \<or> u = 0xA0 \<or> u = 0x1680
     \<or> (0x2000 \<le> u \<and> u \<le> 0x200A) \<or> u = 0x2028 \<or> u = 0x2029 \<or> u = 0x202F
     \<or> u = 0x205F \<or> u = 0x3000 \<or> u = 0xFEFF)"

definition trim :: "jsstring \<Rightarrow> jsstring" where
  "trim s = rev (dropWhile is_space (rev (dropWhile is_space s)))"

text \<open>Decimal digits of a number, as the template literal \<open>`${Date.now()}`\<close> prints them.\<close>

fun dec_nat :: "nat \<Rightarrow> jsstring" where
  "dec_nat n = (if n < 10 then [of_nat (48 + n)] else dec_nat (n div 10) @ [of_nat (48 + n mod 10)])"

declare dec_nat.simps [simp del]

definition Number_toString :: "int \<Rightarrow> jsstring" where
  "Number_toString n = (if n < 0 then lit ''-'' @ dec_nat (nat (- n)) else dec_nat (nat n))"

text \<open>\<open>s.slice(a, b)\<close> for \<open>0 \<le> a \<le> b\<close>.\<close>

definition slice :: "nat \<Rightarrow> nat \<Rightarrow> 'a list \<Rightarrow> 'a list" where
  "slice a b s = take (b - a) (drop a s)"

section \<open>The identifier pattern\<close>

text \<open>
  The source tests identifiers with the regular expression literal \<open>/^\d{17,19}$/\<close>
  (no flags). The pattern is kept as a syntax tree and run by a backtracking matcher:
  \<open>ends r s i\<close> lists the positions where a match of \<open>r\<close> that starts at position \<open>i\<close>
  of the input \<open>s\<close> can end. Without the \<open>m\<close> flag \<open>^\<close> and \<open>$\<close> hold at the two ends
  of the input only, and \<open>\d\<close> is the class \<open>[0-9]\<close>.
\<close>

definition is_digit :: "code_unit \<Rightarrow> bool" where
  "is_digit u = (0x30 \<le> u \<and> u \<le> 0x39)"

datatype regex = Bol | Eol | DigitClass | Repeat nat nat regex | Concat regex regex

fun ends :: "regex \<Rightarrow> jsstring \<Rightarrow> nat \<Rightarrow> nat list" where
  "ends Bol s i = (if i = 0 then [i] else [])"
| "ends Eol s i = (if i = length s then [i] else [])"
| "ends DigitClass s i = (if i < length s \<and> is_digit (s ! i) then [Suc i] else [])"
| "ends (Concat a b) s i = concat (map (ends b s) (ends a s i))"
| "ends (Repeat m n r) s i =
     concat (map (\<lambda>k. ((\<lambda>ps. concat (map (ends r s) ps)) ^^ k) [i]) [m..<Suc n])"

text \<open>\<open>RegExp.prototype.test\<close>: is there a match starting at some position.\<close>

definition test :: "regex \<Rightarrow> jsstring \<Rightarrow> bool" where
  "test r s = list_ex (\<lambda>i. ends r s i \<noteq> []) [0..<Suc (length s)]"

definition snowflake_pattern :: regex where
  "snowflake_pattern = Concat Bol (Concat (Repeat 17 19 DigitClass) Eol)"

definition isValidSnowflake :: "jsstring \<Rightarrow> bool" where
  "isValidSnowflake uid = test snowflake_pattern uid"

section \<open>Data model\<close>

record DiscordUser =
  id_u :: jsstring
  username :: jsstring
  discriminator :: jsstring
  avatar :: "jsstring option"
  bot_u :: "bool option"

text \<open>
  \<open>recipients?: string[] | DiscordUser[]\<close>. The source guards the field with a
  truthiness test and with \<open>Array.isArray\<close>, so a truthy value that is not an array is
  a case of its own; an absent or falsy value is \<open>None\<close>.
\<close>

datatype recipient = RString jsstring | RUser DiscordUser

datatype recipients_value = RArray "recipient list" | RNotArray

record DiscordChannel =
  id_ch :: jsstring
  recipients :: "recipients_value option"
  type_ch :: "int option"

record embed_input =
  title :: "jsstring option"
  description :: "jsstring option"
  imageUrl :: "jsstring option"

record CachedFakeMessage =
  id_c :: jsstring
  targetUserId :: jsstring
  fromUserId :: jsstring
  content :: jsstring
  embed :: "embed_input option"
  timestamp :: int
  channelId :: jsstring

text \<open>
  The field \<open>cache\<close> is declared \<open>CachedFakeMessage[]\<close>, but \<open>loadCache\<close> assigns to it
  whatever \<open>JSON.parse\<close> returns, unchecked. So the field holds a value of the
  language: \<open>JRec r\<close> is an object of the record's shape, the other constructors are
  the values a JSON text can denote.
\<close>

datatype jsval =
    JNull
  | JBool bool
  | JNum int
  | JStr jsstring
  | JArr "jsval list"
  | JObj "(jsstring \<times> jsval) list"
  | JRec CachedFakeMessage

record embed_footer =
  text_f :: jsstring
  icon_url :: "jsstring option"

record messageEmbed =
  type_e :: jsstring
  title_e :: "jsstring option"
  description_e :: "jsstring option"
  color :: nat
  timestamp_e :: jsstring
  footer :: embed_footer
  image_e :: "jsstring option"

record message =
  id_m :: jsstring
  channel_id :: jsstring
  content_m :: jsstring
  author :: DiscordUser
  timestamp_m :: jsstring
  embeds :: "messageEmbed list"
  attachments :: "jsval list"
  flags :: nat
  mention_everyone :: bool
  mentions :: "jsval list"
  mention_roles :: "jsval list"
  pinned :: bool
  type_m :: nat
  tts :: bool
  edited_timestamp :: "jsstring option"

datatype toast_type = SUCCESS | FAILURE

record toast =
  message_t :: jsstring
  type_t :: toast_type
  timeout :: nat

section \<open>Exceptions, promises and the host\<close>

datatype error =
    Error jsstring
  | TypeError
  | SyntaxError
  | SecurityError
  | QuotaExceededError
  | HostError

text \<open>
  A promise of the host either stays pending for ever, is rejected, or is fulfilled.
  An asynchronous computation of the plugin is \<open>Suspend\<close> when it awaits a promise
  that stays pending (it never returns), \<open>Throw\<close> when an exception is on its way to
  the enclosing handler, and \<open>Ok\<close> when it has a value.
\<close>

datatype 'a promise = Pending | Rejected | Fulfilled 'a

datatype 'a step = Suspend | Throw error | Ok 'a

definition await :: "'a promise \<Rightarrow> 'a step" where
  "await p = (case p of Pending \<Rightarrow> Suspend | Rejected \<Rightarrow> Throw HostError | Fulfilled v \<Rightarrow> Ok v)"

definition bind_step :: "'a step \<Rightarrow> ('a \<Rightarrow> 'b step) \<Rightarrow> 'b step" where
  "bind_step m f = (case m of Suspend \<Rightarrow> Suspend | Throw e \<Rightarrow> Throw e | Ok v \<Rightarrow> f v)"

text \<open>
  The host's modules, as \<open>waitForModule\<close> hands them over. A property that is missing
  is \<open>None\<close>. \<open>getPrivateChannels\<close> takes no argument, so the module holds what the call
  does: it throws, or it returns an object, kept as its properties in enumeration order.
\<close>

type_synonym getPrivateChannels_fn = "error + (jsstring \<times> DiscordChannel) list"
type_synonym openPrivateChannel_fn = "jsstring \<Rightarrow> DiscordChannel promise"
type_synonym receiveMessage_fn = "jsstring \<Rightarrow> message \<Rightarrow> error + unit"
type_synonym getUser_fn = "jsstring \<Rightarrow> error + DiscordUser option"

record ChannelsModule =
  getPrivateChannels :: "getPrivateChannels_fn option"
  openPrivateChannel :: "openPrivateChannel_fn option"

record MessageModule =
  receiveMessage :: "receiveMessage_fn option"

record UserModule =
  getUser :: "getUser_fn option"

text \<open>
  Everything the plugin takes from its environment: the three module lookups, the
  behaviour of \<open>localStorage\<close> (access may be denied as a whole, a write may exceed the
  quota), the JSON codec of the platform, and the clock and random readings of one
  \<open>sendFakeMessage\<close> call in the order the source takes them.
\<close>

record host =
  channelsModule :: "ChannelsModule option promise"
  messageModule :: "MessageModule option promise"
  userModule :: "UserModule option promise"
  storage_denied :: bool
  quota_exceeded :: "jsstring \<Rightarrow> jsstring \<Rightarrow> bool"
  JSON_stringify :: "jsval \<Rightarrow> jsstring"
  JSON_parse :: "jsstring \<Rightarrow> error + jsval"
  Date_now_id :: int
  Math_random_36 :: jsstring
  toISOString_message :: jsstring
  toISOString_embed :: jsstring
  Date_now_cache :: int

section \<open>The plugin and what it acts on\<close>

text \<open>
  A subscriber is a function object; two references are \<open>===\<close> exactly when they are
  the same object, so a subscriber is named by a number. Calling one returns normally
  and leaves the plugin alone; the call is logged together with the cache the
  subscriber can read at that moment.
\<close>

type_synonym callback = nat

record world =
  cache :: jsval
  cacheUpdateCallbacks :: "callback list"
  localStorage :: "jsstring \<rightharpoonup> jsstring"
  invoked :: "(callback \<times> jsval) list"
  toasts :: "toast list"
  console :: "jsstring list"
  injected :: "(jsstring \<times> message) list"

definition cacheKey :: jsstring where
  "cacheKey = lit ''fake-messages-cache''"

definition console_error :: "jsstring \<Rightarrow> world \<Rightarrow> world" where
  "console_error label w = w\<lparr>console := console w @ [label]\<rparr>"

definition Toasts_show :: "toast \<Rightarrow> world \<Rightarrow> world" where
  "Toasts_show t w = w\<lparr>toasts := toasts w @ [t]\<rparr>"

definition localStorage_getItem :: "host \<Rightarrow> jsstring \<Rightarrow> world \<Rightarrow> error + jsstring option" where
  "localStorage_getItem H k w = (if storage_denied H then Inl SecurityError else Inr (localStorage w k))"

definition localStorage_setItem :: "host \<Rightarrow> jsstring \<Rightarrow> jsstring \<Rightarrow> world \<Rightarrow> error + world" where
  "localStorage_setItem H k v w =
     (if storage_denied H then Inl SecurityError
      else if quota_exceeded H k v then Inl QuotaExceededError
      else Inr (w\<lparr>localStorage := (localStorage w)(k \<mapsto> v)\<rparr>))"

subsection \<open>Subscriptions\<close>

definition invoke :: "callback \<Rightarrow> world \<Rightarrow> world" where
  "invoke cb w = w\<lparr>invoked := invoked w @ [(cb, cache w)]\<rparr>"

definition notifyCacheUpdate :: "world \<Rightarrow> world" where
  "notifyCacheUpdate w = fold invoke (cacheUpdateCallbacks w) w"

text \<open>\<open>Array.prototype.indexOf\<close> (first index, \<open>-1\<close> when absent) and \<open>splice_at\<close>.\<close>

fun index_from :: "nat \<Rightarrow> 'a list \<Rightarrow> 'a \<Rightarrow> int" where
  "index_from i [] x = - 1"
| "index_from i (y # ys) x = (if y = x then int i else index_from (Suc i) ys x)"

definition indexOf :: "'a list \<Rightarrow> 'a \<Rightarrow> int" where
  "indexOf xs x = index_from 0 xs x"

definition splice_at :: "nat \<Rightarrow> nat \<Rightarrow> 'a list \<Rightarrow> 'a list" where
  "splice_at start n xs = take start xs @ drop (start + n) xs"

text \<open>The closure that \<open>onCacheUpdate\<close> returns, for the callback it has captured.\<close>

definition unsubscribe :: "callback \<Rightarrow> world \<Rightarrow> world" where
  "unsubscribe cb w =
     (let idx = indexOf (cacheUpdateCallbacks w) cb
      in if idx \<noteq> - 1
         then w\<lparr>cacheUpdateCallbacks := splice_at (nat idx) 1 (cacheUpdateCallbacks w)\<rparr>
         else w)"

definition onCacheUpdate :: "callback \<Rightarrow> world \<Rightarrow> (world \<Rightarrow> world) \<times> world" where
  "onCacheUpdate cb w =
     (unsubscribe cb, w\<lparr>cacheUpdateCallbacks := cacheUpdateCallbacks w @ [cb]\<rparr>)"

subsection \<open>The cache\<close>

definition loadCache :: "host \<Rightarrow> world \<Rightarrow> world" where
  "loadCache H w =
     notifyCacheUpdate
       (case localStorage_getItem H cacheKey w of
          Inl e \<Rightarrow> console_error (lit ''Failed to load fake messages cache:'') w
        | Inr None \<Rightarrow> w
        | Inr (Some cached) \<Rightarrow>
            if truthy cached
            then (case JSON_parse H cached of
                    Inl e \<Rightarrow> console_error (lit ''Failed to load fake messages cache:'') w
                  | Inr v \<Rightarrow> w\<lparr>cache := v\<rparr>)
            else w)"

definition saveCache :: "host \<Rightarrow> world \<Rightarrow> world" where
  "saveCache H w =
     (case localStorage_setItem H cacheKey (JSON_stringify H (cache w)) w of
        Inr w' \<Rightarrow> notifyCacheUpdate w'
      | Inl e \<Rightarrow> console_error (lit ''Failed to save fake messages cache:'') w)"

text \<open>\<open>this.cache.push(r)\<close>: a \<open>TypeError\<close> unless the cache is an array.\<close>

definition cache_push :: "CachedFakeMessage \<Rightarrow> world \<Rightarrow> error + world" where
  "cache_push r w =
     (case cache w of
        JArr xs \<Rightarrow> Inr (w\<lparr>cache := JArr (xs @ [JRec r])\<rparr>)
      | _ \<Rightarrow> Inl TypeError)"

text \<open>The record pushed and the cache saved, as \<open>sendFakeMessage\<close> does after building the payload.\<close>

definition cache_append :: "host \<Rightarrow> CachedFakeMessage \<Rightarrow> world \<Rightarrow> error + world" where
  "cache_append H r w =
     (case cache_push r w of
        Inl e \<Rightarrow> Inl e
      | Inr w1 \<Rightarrow> Inr (saveCache H w1))"






text \<open>
  \<open>start\<close> loads the cache and installs the two hooks, which only read the cache;
  \<open>stop\<close> saves.
\<close>

definition start :: "host \<Rightarrow> world \<Rightarrow> world" where
  "start H w = loadCache H w"


section \<open>The compose flow\<close>

text \<open>
  The three module lookups of \<open>sendFakeMessage\<close>, awaited one after the other. The
  channel module must be there with both functions, the message module with
  \<open>receiveMessage\<close>; the user module is taken as it comes.
\<close>

definition resolve_modules ::
  "host \<Rightarrow> (getPrivateChannels_fn \<times> openPrivateChannel_fn \<times> receiveMessage_fn \<times> UserModule option) step" where
  "resolve_modules H =
     bind_step (await (channelsModule H)) (\<lambda>cm.
       case cm of
         None \<Rightarrow> Throw (Error (lit ''Required channel functions not found''))
       | Some chm \<Rightarrow>
          (case getPrivateChannels chm of
             None \<Rightarrow> Throw (Error (lit ''Required channel functions not found''))
           | Some g \<Rightarrow>
              (case openPrivateChannel chm of
                 None \<Rightarrow> Throw (Error (lit ''Required channel functions not found''))
               | Some opn \<Rightarrow>
                  bind_step (await (messageModule H)) (\<lambda>mm.
                    case mm of
                      None \<Rightarrow> Throw (Error (lit ''receiveMessage function not found''))
                    | Some msm \<Rightarrow>
                       (case receiveMessage msm of
                          None \<Rightarrow> Throw (Error (lit ''receiveMessage function not found''))
                        | Some rcv \<Rightarrow>
                           bind_step (await (userModule H)) (\<lambda>um. Ok (g, opn, rcv, um)))))))"

text \<open>\<open>Object.values\<close> of the channel map, and the loop that looks for the channel.\<close>

definition Object_values :: "('k \<times> 'v) list \<Rightarrow> 'v list" where
  "Object_values props = map snd props"

definition recipientIds :: "recipients_value \<Rightarrow> jsstring list" where
  "recipientIds rv =
     (case rv of
        RArray rs \<Rightarrow> map (\<lambda>r. case r of RString s \<Rightarrow> s | RUser u \<Rightarrow> id_u u) rs
      | RNotArray \<Rightarrow> [])"

fun find_dm :: "jsstring \<Rightarrow> DiscordChannel list \<Rightarrow> DiscordChannel option" where
  "find_dm target [] = None"
| "find_dm target (channel # rest) =
     (case recipients channel of
        None \<Rightarrow> find_dm target rest
      | Some rv \<Rightarrow>
          if target \<in> set (recipientIds rv) then Some channel
          else find_dm target rest)"

text \<open>\<open>userModule.getUser?.(fromUserId) || { ...placeholder }\<close>.\<close>

definition lookup_user :: "UserModule option \<Rightarrow> jsstring \<Rightarrow> error + DiscordUser" where
  "lookup_user um sender =
     (let placeholder = \<lparr>id_u = sender, username = lit ''Unknown User'',
                          discriminator = lit ''0000'', avatar = None, bot_u = None\<rparr>
      in case um of
           None \<Rightarrow> Inl TypeError
         | Some m \<Rightarrow>
            (case getUser m of
               None \<Rightarrow> Inr placeholder
             | Some g \<Rightarrow>
                (case g sender of
                   Inl e \<Rightarrow> Inl e
                 | Inr None \<Rightarrow> Inr placeholder
                 | Inr (Some u) \<Rightarrow> Inr u)))"

definition messageId :: "host \<Rightarrow> jsstring" where
  "messageId H =
     lit ''fake-'' @ Number_toString (Date_now_id H) @ lit ''-'' @ slice 2 11 (Math_random_36 H)"

text \<open>The embed that goes into the payload, when one is attached.\<close>

definition build_embed :: "host \<Rightarrow> DiscordUser \<Rightarrow> embed_input \<Rightarrow> messageEmbed" where
  "build_embed H fromUser e =
     \<lparr>type_e = lit ''rich'',
      title_e = title e,
      description_e = description e,
      color = 0x00ff00,
      timestamp_e = toISOString_embed H,
      footer = \<lparr>text_f = lit ''Sent by '' @ username fromUser @ lit ''#'' @ discriminator fromUser,
                 icon_url = (if truthy_opt (avatar fromUser)
                             then Some (lit ''https://cdn.discordapp.com/avatars/'' @ id_u fromUser
                                        @ lit ''/'' @ the (avatar fromUser) @ lit ''.png'')
                             else None)\<rparr>,
      image_e = (if truthy_opt (imageUrl e) then imageUrl e else None)\<rparr>"

text \<open>
  The payload: the object literal \<open>fakeMessage\<close>, then the embed pushed onto its
  \<open>embeds\<close> when \<open>embed && (embed.title || embed.description || embed.imageUrl)\<close>.
\<close>

definition build_message ::
  "host \<Rightarrow> DiscordChannel \<Rightarrow> jsstring \<Rightarrow> DiscordUser \<Rightarrow> embed_input option \<Rightarrow> message" where
  "build_message H dmChannel content0 fromUser emb =
     (let fakeMessage =
            \<lparr>id_m = messageId H,
             channel_id = id_ch dmChannel,
             content_m = content0,
             author = fromUser,
             timestamp_m = toISOString_message H,
             embeds = [],
             attachments = [],
             flags = 0,
             mention_everyone = False,
             mentions = [],
             mention_roles = [],
             pinned = False,
             type_m = 0,
             tts = False,
             edited_timestamp = None\<rparr>
      in case emb of
           None \<Rightarrow> fakeMessage
         | Some e \<Rightarrow>
            if truthy_opt (title e) \<or> truthy_opt (description e) \<or> truthy_opt (imageUrl e)
            then fakeMessage\<lparr>embeds := embeds fakeMessage @ [build_embed H fromUser e]\<rparr>
            else fakeMessage)"

definition cache_record ::
  "host \<Rightarrow> DiscordChannel \<Rightarrow> jsstring \<Rightarrow> jsstring \<Rightarrow> jsstring \<Rightarrow> embed_input option \<Rightarrow> CachedFakeMessage" where
  "cache_record H dmChannel targetUserId0 fromUserId0 content0 emb =
     \<lparr>id_c = messageId H,
      targetUserId = targetUserId0,
      fromUserId = fromUserId0,
      content = content0,
      embed = emb,
      timestamp = Date_now_cache H,
      channelId = id_ch dmChannel\<rparr>"

text \<open>
  From the user lookup to the success toast, once the channel is known: build the
  payload, push the record and save, hand the payload to \<open>receiveMessage\<close>. A throw
  of the push leaves the world as it was; a throw of \<open>receiveMessage\<close> comes after the
  push and the save.
\<close>

definition deliver ::
  "host \<Rightarrow> receiveMessage_fn \<Rightarrow> UserModule option \<Rightarrow> jsstring \<Rightarrow> jsstring \<Rightarrow> jsstring
     \<Rightarrow> embed_input option \<Rightarrow> DiscordChannel \<Rightarrow> world \<Rightarrow> bool step \<times> world" where
  "deliver H rcv um targetUserId0 fromUserId0 content0 emb dmChannel w =
     (case lookup_user um fromUserId0 of
        Inl e \<Rightarrow> (Throw e, w)
      | Inr fromUser \<Rightarrow>
         (let fakeMessage = build_message H dmChannel content0 fromUser emb
          in case cache_append H (cache_record H dmChannel targetUserId0 fromUserId0 content0 emb) w of
               Inl e \<Rightarrow> (Throw e, w)
             | Inr w2 \<Rightarrow>
                (case rcv (id_ch dmChannel) fakeMessage of
                   Inl e \<Rightarrow> (Throw e, w2)
                 | Inr u \<Rightarrow>
                    (Ok True,
                     Toasts_show
                       \<lparr>message_t = lit ''Fake message sent to user '' @ targetUserId0,
                        type_t = SUCCESS, timeout = 3000\<rparr>
                       (w2\<lparr>injected := injected w2 @ [(id_ch dmChannel, fakeMessage)]\<rparr>)))))"

text \<open>The body of the outer \<open>try\<close>, after the identifier check.\<close>

definition send_body ::
  "host \<Rightarrow> jsstring \<Rightarrow> jsstring \<Rightarrow> jsstring \<Rightarrow> embed_input option \<Rightarrow> world \<Rightarrow> bool step \<times> world" where
  "send_body H targetUserId0 fromUserId0 content0 emb w =
     (case resolve_modules H of
        Suspend \<Rightarrow> (Suspend, w)
      | Throw e \<Rightarrow> (Throw e, w)
      | Ok (g, opn, rcv, um) \<Rightarrow>
         (case g of
            Inl e \<Rightarrow> (Throw e, w)
          | Inr privateChannels \<Rightarrow>
             (case find_dm targetUserId0 (Object_values privateChannels) of
                Some dmChannel \<Rightarrow>
                  deliver H rcv um targetUserId0 fromUserId0 content0 emb dmChannel w
              | None \<Rightarrow>
                 (case opn targetUserId0 of
                    Pending \<Rightarrow> (Suspend, w)
                  | Rejected \<Rightarrow>
                      (Ok False,
                       Toasts_show
                         \<lparr>message_t = lit ''Failed to create DM channel with target user'',
                          type_t = FAILURE, timeout = 3000\<rparr>
                         (console_error (lit ''Failed to create DM channel:'') w))
                  | Fulfilled dmChannel \<Rightarrow>
                      deliver H rcv um targetUserId0 fromUserId0 content0 emb dmChannel w))))"

text \<open>
  \<open>sendFakeMessage\<close>: the promise it returns is fulfilled with the boolean, or stays
  pending when the body awaits a promise of the host that never settles.
\<close>

definition sendFakeMessage ::
  "host \<Rightarrow> jsstring \<Rightarrow> jsstring \<Rightarrow> jsstring \<Rightarrow> embed_input option \<Rightarrow> world \<Rightarrow> bool promise \<times> world" where
  "sendFakeMessage H targetUserId0 fromUserId0 content0 emb w =
     (if \<not> isValidSnowflake targetUserId0 \<or> \<not> isValidSnowflake fromUserId0
      then (Fulfilled False,
            Toasts_show \<lparr>message_t = lit ''Invalid user ID format'', type_t = FAILURE, timeout = 3000\<rparr> w)
      else case send_body H targetUserId0 fromUserId0 content0 emb w of
             (Suspend, w') \<Rightarrow> (Pending, w')
           | (Throw e, w') \<Rightarrow>
               (Fulfilled False,
                Toasts_show \<lparr>message_t = lit ''Failed to send fake message'', type_t = FAILURE, timeout = 3000\<rparr>
                  (console_error (lit ''Error sending fake message:'') w'))
           | (Ok b, w') \<Rightarrow> (Fulfilled b, w'))"

section \<open>The compose modal\<close>

record form_errors =
  err_targetUserId :: "jsstring option"
  err_fromUserId :: "jsstring option"
  err_messageContent :: "jsstring option"

record FakeMessageModalState =
  targetUserId_s :: jsstring
  fromUserId_s :: jsstring
  messageContent :: jsstring
  embedTitle :: jsstring
  embedDescription :: jsstring
  embedImageUrl :: jsstring
  showEmbed :: bool
  isSending :: bool
  errors :: form_errors
  closed :: bool

definition finalErrors :: "FakeMessageModalState \<Rightarrow> form_errors" where
  "finalErrors st =
     \<lparr>err_targetUserId =
        (if \<not> truthy (targetUserId_s st) \<or> \<not> test snowflake_pattern (targetUserId_s st)
         then Some (lit ''Valid target user ID is required'') else None),
      err_fromUserId =
        (if \<not> truthy (fromUserId_s st) \<or> \<not> test snowflake_pattern (fromUserId_s st)
         then Some (lit ''Valid from user ID is required'') else None),
      err_messageContent =
        (if \<not> truthy (trim (messageContent st))
         then Some (lit ''Message content is required'') else None)\<rparr>"

text \<open>
  \<open>validateForm\<close> stores the fresh errors when they differ from the stored ones and
  returns whether the form may be sent.
\<close>

definition validateForm :: "FakeMessageModalState \<Rightarrow> bool \<times> FakeMessageModalState" where
  "validateForm st =
     (let fe = finalErrors st
      in ((err_targetUserId fe = None \<and> err_fromUserId fe = None \<and> err_messageContent fe = None)
            \<and> truthy (targetUserId_s st) \<and> truthy (fromUserId_s st)
            \<and> truthy (trim (messageContent st)),
          if fe \<noteq> errors st then st\<lparr>errors := fe\<rparr> else st))"

text \<open>
  \<open>handleSend\<close>. The result says whether the handler has returned (\<open>Pending\<close> when
  \<open>sendFakeMessage\<close> never settles) and gives the modal and the world it leaves.
  \<open>closed\<close> records the call of \<open>onClose\<close>.
\<close>

definition handleSend ::
  "host \<Rightarrow> FakeMessageModalState \<Rightarrow> world \<Rightarrow> unit promise \<times> FakeMessageModalState \<times> world" where
  "handleSend H st w =
     (case validateForm st of
        (False, st1) \<Rightarrow> (Fulfilled (), st1, w)
      | (True, st1) \<Rightarrow>
         (let st2 = st1\<lparr>isSending := True\<rparr>;
              embedData = (if showEmbed st2
                           then Some \<lparr>title = Some (embedTitle st2),
                                      description = Some (embedDescription st2),
                                      imageUrl = Some (embedImageUrl st2)\<rparr>
                           else None)
          in case sendFakeMessage H (targetUserId_s st2) (fromUserId_s st2) (messageContent st2) embedData w of
               (Pending, w') \<Rightarrow> (Pending, st2, w')
             | (Rejected, w') \<Rightarrow>
                 (Fulfilled (), st2\<lparr>isSending := False\<rparr>,
                  console_error (lit ''Error sending fake message:'') w')
             | (Fulfilled success, w') \<Rightarrow>
                 (Fulfilled (),
                  (if success
                   then st2\<lparr>targetUserId_s := [], fromUserId_s := [], messageContent := [],
                            embedTitle := [], embedDescription := [], embedImageUrl := [],
                            errors := \<lparr>err_targetUserId = None, err_fromUserId = None,
                                       err_messageContent = None\<rparr>,
                            closed := True\<rparr>
                   else st2)\<lparr>isSending := False\<rparr>,
                  w')))"

section \<open>Sequences of calls\<close>




text \<open>The plugin as its field initialisers leave it, in front of an empty store.\<close>

definition initial :: world where
  "initial = \<lparr>cache = JArr [], cacheUpdateCallbacks = [], localStorage = Map.empty,
              invoked = [], toasts = [], console = [], injected = []\<rparr>"

section \<open>A host for the examples\<close>

text \<open>
  The host of the examples: the three modules resolve, the channel map holds the
  channel \<open>chan-1\<close> with the user \<open>111111111111111111\<close> as its recipient, no other
  channel can be opened, the user module knows nobody, \<open>receiveMessage\<close> accepts
  what it is given and the store accepts every write. Its JSON codec is a table of
  the values the examples use, each with the text that \<open>JSON.stringify\<close> prints for it
  and \<open>JSON.parse\<close> reads back (a property holding \<open>undefined\<close> is not printed).
\<close>

definition chan1 :: DiscordChannel where
  "chan1 = \<lparr>id_ch = lit ''chan-1'',
            recipients = Some (RArray [RString (lit ''111111111111111111'')]),
            type_ch = Some 1\<rparr>"

definition hello_record :: CachedFakeMessage where
  "hello_record =
     \<lparr>id_c = lit ''fake-1700000000000-4fzyo82mv'',
      targetUserId = lit ''111111111111111111'',
      fromUserId = lit ''222222222222222222'',
      content = lit ''hello'',
      embed = None,
      timestamp = 1700000000123,
      channelId = lit ''chan-1''\<rparr>"

text \<open>
  The same record with an embed whose title is one space, with an embed of three
  empty strings (what the modal passes for an embed section left blank), and with
  empty content.
\<close>

definition spaced_embed :: embed_input where
  "spaced_embed = \<lparr>title = Some (lit '' ''), description = Some [], imageUrl = Some []\<rparr>"

definition empty_embed :: embed_input where
  "empty_embed = \<lparr>title = Some [], description = Some [], imageUrl = Some []\<rparr>"

definition emptied_record :: CachedFakeMessage where
  "emptied_record = hello_record\<lparr>embed := Some empty_embed\<rparr>"

definition spaced_record :: CachedFakeMessage where
  "spaced_record = hello_record\<lparr>embed := Some spaced_embed\<rparr>"

definition blank_record :: CachedFakeMessage where
  "blank_record = hello_record\<lparr>content := []\<rparr>"

definition quote :: jsstring where
  "quote = [0x22]"

text \<open>
  The JSON text of a one-record cache, given the text of the content string and the
  text of the \<open>embed\<close> member (empty when the embed is \<open>undefined\<close>).
\<close>

definition record_text :: "jsstring \<Rightarrow> jsstring \<Rightarrow> jsstring" where
  "record_text content_text embed_member =
     lit ''[{'' @ quote @ lit ''id'' @ quote @ lit '':'' @ quote @ lit ''fake-1700000000000-4fzyo82mv'' @ quote
     @ lit '','' @ quote @ lit ''targetUserId'' @ quote @ lit '':'' @ quote @ lit ''111111111111111111'' @ quote
     @ lit '','' @ quote @ lit ''fromUserId'' @ quote @ lit '':'' @ quote @ lit ''222222222222222222'' @ quote
     @ lit '','' @ quote @ lit ''content'' @ quote @ lit '':'' @ quote @ content_text @ quote
     @ embed_member
     @ lit '','' @ quote @ lit ''timestamp'' @ quote @ lit '':1700000000123''
     @ lit '','' @ quote @ lit ''channelId'' @ quote @ lit '':'' @ quote @ lit ''chan-1'' @ quote @ lit ''}]''"

definition hello_text :: jsstring where
  "hello_text = record_text (lit ''hello'') []"

definition spaced_text :: jsstring where
  "spaced_text =
     record_text (lit ''hello'')
       (lit '','' @ quote @ lit ''embed'' @ quote @ lit '':{''
        @ quote @ lit ''title'' @ quote @ lit '':'' @ quote @ lit '' '' @ quote
        @ lit '','' @ quote @ lit ''description'' @ quote @ lit '':'' @ quote @ quote
        @ lit '','' @ quote @ lit ''imageUrl'' @ quote @ lit '':'' @ quote @ quote @ lit ''}'')"

definition emptied_text :: jsstring where
  "emptied_text =
     record_text (lit ''hello'')
       (lit '','' @ quote @ lit ''embed'' @ quote @ lit '':{''
        @ quote @ lit ''title'' @ quote @ lit '':'' @ quote @ quote
        @ lit '','' @ quote @ lit ''description'' @ quote @ lit '':'' @ quote @ quote
        @ lit '','' @ quote @ lit ''imageUrl'' @ quote @ lit '':'' @ quote @ quote @ lit ''}'')"

definition blank_text :: jsstring where
  "blank_text = record_text [] []"

definition codec_table :: "(jsval \<times> jsstring) list" where
  "codec_table =
     [(JArr [], lit ''[]''),
      (JArr [JRec hello_record], hello_text),
      (JArr [JRec spaced_record], spaced_text),
      (JArr [JRec emptied_record], emptied_text),
      (JArr [JRec blank_record], blank_text),
      (JObj [], lit ''{}'')]"

definition table_stringify :: "jsval \<Rightarrow> jsstring" where
  "table_stringify v = (case map_of codec_table v of Some t \<Rightarrow> t | None \<Rightarrow> lit ''null'')"

definition table_parse :: "jsstring \<Rightarrow> error + jsval" where
  "table_parse t =
     (case map_of (map (\<lambda>(v, t). (t, v)) codec_table) t of Some v \<Rightarrow> Inr v | None \<Rightarrow> Inl SyntaxError)"

definition stub_host :: host where
  "stub_host =
     \<lparr>channelsModule =
        Fulfilled (Some \<lparr>getPrivateChannels = Some (Inr [(lit ''chan-1'', chan1)]),
                         openPrivateChannel = Some (\<lambda>u. Rejected)\<rparr>),
      messageModule = Fulfilled (Some \<lparr>receiveMessage = Some (\<lambda>c m. Inr ())\<rparr>),
      userModule = Fulfilled (Some \<lparr>getUser = Some (\<lambda>u. Inr None)\<rparr>),
      storage_denied = False,
      quota_exceeded = (\<lambda>k v. False),
      JSON_stringify = table_stringify,
      JSON_parse = table_parse,
      Date_now_id = 1700000000000,
      Math_random_36 = lit ''0.4fzyo82mvyr'',
      toISOString_message = lit ''2023-11-14T22:13:20.000Z'',
      toISOString_embed = lit ''2023-11-14T22:13:20.001Z'',
      Date_now_cache = 1700000000123\<rparr>"


definition refusing_host :: host where
  "refusing_host =
     stub_host\<lparr>messageModule := Fulfilled (Some \<lparr>receiveMessage = Some (\<lambda>c m. Inl HostError)\<rparr>)\<rparr>"

definition lonely_host :: host where
  "lonely_host =
     stub_host\<lparr>channelsModule :=
        Fulfilled (Some \<lparr>getPrivateChannels = Some (Inr []),
                         openPrivateChannel = Some (\<lambda>u. Rejected)\<rparr>)\<rparr>"

text \<open>A form with both identifiers filled in and two spaces as its content.\<close>

definition spaces_form :: FakeMessageModalState where
  "spaces_form =
     \<lparr>targetUserId_s = lit ''111111111111111111'',
      fromUserId_s = lit ''222222222222222222'',
      messageContent = lit ''  '',
      embedTitle = [], embedDescription = [], embedImageUrl = [],
      showEmbed = False, isSending = False,
      errors = \<lparr>err_targetUserId = None, err_fromUserId = None, err_messageContent = None\<rparr>,
      closed = False\<rparr>"

section \<open>Notions for the proofs\<close>


section \<open>Properties\<close>

subsection \<open>The identifier pattern\<close>

lemma iter_digits:
  "i \<le> length s \<Longrightarrow> ((\<lambda>ps. concat (map (ends DigitClass s) ps)) ^^ k) [i] =
     (if i + k \<le> length s \<and> (\<forall>j. i \<le> j \<and> j < i + k \<longrightarrow> is_digit (s ! j)) then [i + k] else [])"
proof (induction k)
  case 0
  then show ?case by simp
next
  case (Suc k)
  note IH = Suc.IH [OF Suc.prems]
  show ?case
  proof (cases "i + k \<le> length s \<and> (\<forall>j. i \<le> j \<and> j < i + k \<longrightarrow> is_digit (s ! j))")
    case True
    then show ?thesis using IH
      by (auto simp: less_Suc_eq)
  next
    case False
    then show ?thesis using IH by auto
  qed
qed

lemma ends_snowflake:
  "ends snowflake_pattern s i =
     (if i = 0 \<and> 17 \<le> length s \<and> length s \<le> 19 \<and> (\<forall>j < length s. is_digit (s ! j))
      then [length s] else [])"
proof -
  have up: "[17..<Suc 19] = [17, 18, 19]"
    by (simp add: upt_rec)
  show ?thesis
    unfolding snowflake_pattern_def
    by (auto simp: up iter_digits)
qed

lemma test_snowflake_iff:
  "test snowflake_pattern s \<longleftrightarrow> 17 \<le> length s \<and> length s \<le> 19 \<and> list_all is_digit s"
  unfolding test_def
  by (auto simp: ends_snowflake list_ex_iff list_all_length)

text \<open>
  Claim C2. For every string \<open>s\<close>, \<open>isValidSnowflake s\<close> is true if and only if \<open>s\<close>
  consists of 17 to 19 ASCII digits and nothing else. The function takes the string
  and nothing else, and returns the boolean and nothing else. The witness runs it on
  the three strings of the claim.
\<close>

theorem isValidSnowflake_digits:
  "isValidSnowflake s \<longleftrightarrow> (17 \<le> length s \<and> length s \<le> 19 \<and> list_all is_digit s)"
  by (simp add: isValidSnowflake_def test_snowflake_iff)

theorem isValidSnowflake_digits_witness:
  "isValidSnowflake (lit ''123456789012345678'')
   \<and> \<not> isValidSnowflake (lit ''12345'')
   \<and> \<not> isValidSnowflake (lit ''abc12345678901234'')"
  using isValidSnowflake_digits [of "lit ''123456789012345678''"]
    isValidSnowflake_digits [of "lit ''12345''"]
    isValidSnowflake_digits [of "lit ''abc12345678901234''"]
  by (simp add: lit_def is_digit_def)

subsection \<open>Subscriptions\<close>

lemma fold_invoke:
  "fold invoke cs w = w\<lparr>invoked := invoked w @ map (\<lambda>c. (c, cache w)) cs\<rparr>"
  by (induction cs arbitrary: w) (simp_all add: invoke_def)

lemma notifyCacheUpdate_eq:
  "notifyCacheUpdate w = w\<lparr>invoked := invoked w @ map (\<lambda>c. (c, cache w)) (cacheUpdateCallbacks w)\<rparr>"
  by (simp add: notifyCacheUpdate_def fold_invoke)

lemma index_from_absent: "x \<notin> set xs \<Longrightarrow> index_from i xs x = - 1"
  by (induction xs arbitrary: i) auto

lemma index_from_present:
  "x \<in> set xs \<Longrightarrow> int i \<le> index_from i xs x \<and>
     splice_at (nat (index_from i xs x) - i) 1 xs = remove1 x xs"
proof (induction xs arbitrary: i)
  case Nil
  then show ?case by simp
next
  case (Cons y ys)
  show ?case
  proof (cases "y = x")
    case True
    then show ?thesis by (simp add: splice_at_def)
  next
    case False
    with Cons.prems have "x \<in> set ys" by simp
    from Cons.IH [OF this, of "Suc i"]
    have le: "int (Suc i) \<le> index_from (Suc i) ys x"
      and sp: "splice_at (nat (index_from (Suc i) ys x) - Suc i) 1 ys = remove1 x ys"
      by simp_all
    define k where "k = nat (index_from (Suc i) ys x)"
    from le have "Suc i \<le> k" by (simp add: k_def)
    then have k: "k - i = Suc (k - Suc i)" by simp
    from sp have "take (k - Suc i) ys @ drop (Suc (k - Suc i)) ys = remove1 x ys"
      by (simp add: splice_at_def k_def)
    with False le show ?thesis
      unfolding splice_at_def
      by (simp add: k k_def [symmetric])
  qed
qed

lemma unsubscribe_eq:
  "unsubscribe c w = w\<lparr>cacheUpdateCallbacks := remove1 c (cacheUpdateCallbacks w)\<rparr>"
proof (cases "c \<in> set (cacheUpdateCallbacks w)")
  case True
  from index_from_present [OF this, of 0] show ?thesis
    by (auto simp: unsubscribe_def indexOf_def Let_def)
next
  case False
  then show ?thesis
    by (simp add: unsubscribe_def indexOf_def Let_def index_from_absent remove1_idem)
qed

















lemma saveCache_ok:
  "\<not> storage_denied H \<Longrightarrow> \<not> quota_exceeded H cacheKey (JSON_stringify H (cache w)) \<Longrightarrow>
    saveCache H w = notifyCacheUpdate (w\<lparr>localStorage := (localStorage w)(cacheKey \<mapsto> JSON_stringify H (cache w))\<rparr>)"
  by (simp add: saveCache_def localStorage_setItem_def)

lemma saveCache_failed:
  "storage_denied H \<or> quota_exceeded H cacheKey (JSON_stringify H (cache w)) \<Longrightarrow>
    saveCache H w = console_error (lit ''Failed to save fake messages cache:'') w"
  by (auto simp: saveCache_def localStorage_setItem_def)

lemma cache_saveCache: "cache (saveCache H w) = cache w"
  by (cases "storage_denied H \<or> quota_exceeded H cacheKey (JSON_stringify H (cache w))")
     (simp_all add: saveCache_failed saveCache_ok notifyCacheUpdate_eq console_error_def)


text \<open>
  Claim C5, as amended. For every callback registered with \<open>onCacheUpdate\<close>, the
  callback is appended to the subscription list, and each call of the returned
  function removes the first occurrence of that callback from the list as it is
  then, changes nothing else and raises nothing; a call made when the callback is
  not in the list changes nothing. So the returned function undoes the registration,
  and calling it again is a no-op, whenever the callback has no other registration
  in the list.
\<close>

theorem unsubscribe_first_occurrence:
  "cacheUpdateCallbacks (snd (onCacheUpdate cb w)) = cacheUpdateCallbacks w @ [cb]
   \<and> fst (onCacheUpdate cb w) w' = w'\<lparr>cacheUpdateCallbacks := remove1 cb (cacheUpdateCallbacks w')\<rparr>
   \<and> (cb \<notin> set (cacheUpdateCallbacks w') \<longrightarrow> fst (onCacheUpdate cb w) w' = w')
   \<and> (cb \<notin> set (cacheUpdateCallbacks w) \<longrightarrow>
        fst (onCacheUpdate cb w) (snd (onCacheUpdate cb w)) = w)
   \<and> (count_list (cacheUpdateCallbacks w') cb \<le> 1 \<longrightarrow>
        fst (onCacheUpdate cb w) (fst (onCacheUpdate cb w) w') = fst (onCacheUpdate cb w) w')"
proof -
  have one: "count_list xs cb \<le> 1 \<Longrightarrow> cb \<notin> set (remove1 cb xs)" for xs :: "callback list"
    by (induction xs) (auto simp: count_list_0_iff split: if_splits)
  show ?thesis
    by (auto simp: onCacheUpdate_def unsubscribe_eq remove1_idem remove1_append one)
qed

theorem unsubscribe_first_occurrence_witness:
  "7 \<notin> set (cacheUpdateCallbacks initial)
   \<and> count_list (cacheUpdateCallbacks (snd (onCacheUpdate 7 initial))) 7 \<le> 1
   \<and> cacheUpdateCallbacks (snd (onCacheUpdate 7 initial)) = [7]
   \<and> fst (onCacheUpdate 7 initial) (snd (onCacheUpdate 7 initial)) = initial
   \<and> fst (onCacheUpdate 7 initial) (fst (onCacheUpdate 7 initial) (snd (onCacheUpdate 7 initial)))
       = fst (onCacheUpdate 7 initial) (snd (onCacheUpdate 7 initial))"
proof -
  have a: "7 \<notin> set (cacheUpdateCallbacks initial)"
    by (simp add: initial_def)
  have b: "count_list (cacheUpdateCallbacks (snd (onCacheUpdate 7 initial))) 7 \<le> 1"
    by (simp add: initial_def onCacheUpdate_def)
  have c: "cacheUpdateCallbacks (snd (onCacheUpdate 7 initial)) = [7]"
    by (simp add: initial_def onCacheUpdate_def)
  note T = unsubscribe_first_occurrence [of 7 initial "snd (onCacheUpdate 7 initial)"]
  from T a have d: "fst (onCacheUpdate 7 initial) (snd (onCacheUpdate 7 initial)) = initial"
    by blast
  from T b have e: "fst (onCacheUpdate 7 initial) (fst (onCacheUpdate 7 initial) (snd (onCacheUpdate 7 initial)))
       = fst (onCacheUpdate 7 initial) (snd (onCacheUpdate 7 initial))"
    by blast
  from a b c d e show ?thesis by blast
qed

text \<open>
  Claim C5 as stated fails where the same callback is registered twice: the second
  call of the first registration's unsubscribe function removes the second
  registration, so it is not a no-op.
\<close>

theorem unsubscribe_twice_counterexample:
  "fst (onCacheUpdate 7 initial)
     (fst (onCacheUpdate 7 initial) (snd (onCacheUpdate 7 (snd (onCacheUpdate 7 initial)))))
   \<noteq> fst (onCacheUpdate 7 initial) (snd (onCacheUpdate 7 (snd (onCacheUpdate 7 initial))))"
proof -
  have "cacheUpdateCallbacks (fst (onCacheUpdate 7 initial)
     (fst (onCacheUpdate 7 initial) (snd (onCacheUpdate 7 (snd (onCacheUpdate 7 initial)))))) = []"
    by (simp add: onCacheUpdate_def initial_def unsubscribe_def indexOf_def splice_at_def)
  moreover have "cacheUpdateCallbacks
     (fst (onCacheUpdate 7 initial) (snd (onCacheUpdate 7 (snd (onCacheUpdate 7 initial))))) = [7]"
    by (simp add: onCacheUpdate_def initial_def unsubscribe_def indexOf_def splice_at_def)
  ultimately show ?thesis
    by (metis list.distinct(1))
qed




subsection \<open>The cache and the persisted slot\<close>

lemma cache_append_array:
  "cache w = JArr xs \<Longrightarrow>
     cache_append H r w = Inr (saveCache H (w\<lparr>cache := JArr (xs @ [JRec r])\<rparr>))"
  by (simp add: cache_append_def cache_push_def)


lemma stub_host_storage [simp]:
  "\<not> storage_denied stub_host" "\<not> quota_exceeded stub_host k v"
  "JSON_stringify stub_host = table_stringify" "JSON_parse stub_host = table_parse"
  by (simp_all add: stub_host_def)











subsection \<open>The compose flow\<close>

lemma resolve_modules_ok:
  assumes "channelsModule H = Fulfilled (Some chm)"
    and "getPrivateChannels chm = Some g"
    and "openPrivateChannel chm = Some opn"
    and "messageModule H = Fulfilled (Some mm)"
    and "receiveMessage mm = Some rcv"
    and "userModule H = Fulfilled um"
  shows "resolve_modules H = Ok (g, opn, rcv, um)"
  using assms by (simp add: resolve_modules_def await_def bind_step_def)

lemma find_dm_None_iff:
  "find_dm t cs = None \<longleftrightarrow> (\<forall>c \<in> set cs. \<forall>rv. recipients c = Some rv \<longrightarrow> t \<notin> set (recipientIds rv))"
  by (induction cs) (auto split: option.splits)

lemma find_dm_Some:
  "find_dm t cs = Some c \<Longrightarrow> c \<in> set cs \<and> (\<exists>rv. recipients c = Some rv \<and> t \<in> set (recipientIds rv))"
  by (induction cs) (auto split: option.splits if_splits)

lemma deliver_array:
  assumes "lookup_user um f = Inr u" and "cache w = JArr xs"
  shows "deliver H rcv um t f c e ch w =
     (case rcv (id_ch ch) (build_message H ch c u e) of
        Inl x \<Rightarrow> (Throw x, saveCache H (w\<lparr>cache := JArr (xs @ [JRec (cache_record H ch t f c e)])\<rparr>))
      | Inr y \<Rightarrow>
          (Ok True,
           Toasts_show \<lparr>message_t = lit ''Fake message sent to user '' @ t, type_t = SUCCESS, timeout = 3000\<rparr>
             ((saveCache H (w\<lparr>cache := JArr (xs @ [JRec (cache_record H ch t f c e)])\<rparr>))
                \<lparr>injected := injected (saveCache H (w\<lparr>cache := JArr (xs @ [JRec (cache_record H ch t f c e)])\<rparr>))
                     @ [(id_ch ch, build_message H ch c u e)]\<rparr>)))"
  using assms by (simp add: deliver_def cache_append_array Let_def split: sum.splits)

lemma sendFakeMessage_resolved:
  assumes "isValidSnowflake t" and "isValidSnowflake f"
    and "channelsModule H = Fulfilled (Some chm)"
    and "getPrivateChannels chm = Some (Inr chans)"
    and "openPrivateChannel chm = Some opn"
    and "messageModule H = Fulfilled (Some mm)"
    and "receiveMessage mm = Some rcv"
    and "userModule H = Fulfilled um"
    and "find_dm t (Object_values chans) = Some ch
         \<or> (find_dm t (Object_values chans) = None \<and> opn t = Fulfilled ch)"
  shows "sendFakeMessage H t f c e w =
     (case deliver H rcv um t f c e ch w of
        (Suspend, w') \<Rightarrow> (Pending, w')
      | (Throw x, w') \<Rightarrow>
          (Fulfilled False,
           Toasts_show \<lparr>message_t = lit ''Failed to send fake message'', type_t = FAILURE, timeout = 3000\<rparr>
             (console_error (lit ''Error sending fake message:'') w'))
      | (Ok b, w') \<Rightarrow> (Fulfilled b, w'))"
proof -
  have r: "resolve_modules H = Ok (Inr chans, opn, rcv, um)"
    using assms(3-8) by (rule resolve_modules_ok)
  from assms(9) have "send_body H t f c e w = deliver H rcv um t f c e ch w"
    by (auto simp: send_body_def r)
  with assms(1,2) show ?thesis
    by (simp add: sendFakeMessage_def)
qed

lemma find_dm_first:
  assumes "c1 \<in> set cs" and "recipients c1 = Some rv" and "t \<in> set (recipientIds rv)"
  shows "\<exists>c. find_dm t cs = Some c"
proof (cases "find_dm t cs")
  case None
  with assms show ?thesis by (simp add: find_dm_None_iff)
next
  case (Some c)
  then show ?thesis by simp
qed

lemma target_valid: "isValidSnowflake (lit ''111111111111111111'')"
  and sender_valid: "isValidSnowflake (lit ''222222222222222222'')"
  by (simp_all add: isValidSnowflake_def test_snowflake_iff lit_def is_digit_def)

lemma stub_channels:
  "channelsModule stub_host =
     Fulfilled (Some \<lparr>getPrivateChannels = Some (Inr [(lit ''chan-1'', chan1)]),
                      openPrivateChannel = Some (\<lambda>u. Rejected)\<rparr>)"
  "messageModule stub_host = Fulfilled (Some \<lparr>receiveMessage = Some (\<lambda>c m. Inr ())\<rparr>)"
  "userModule stub_host = Fulfilled (Some \<lparr>getUser = Some (\<lambda>u. Inr None)\<rparr>)"
  by (simp_all add: stub_host_def)

lemma chan1_fields:
  "id_ch chan1 = lit ''chan-1''"
  "recipients chan1 = Some (RArray [RString (lit ''111111111111111111'')])"
  by (simp_all add: chan1_def)

lemma injected_saveCache: "injected (saveCache H w) = injected w"
  by (cases "storage_denied H \<or> quota_exceeded H cacheKey (JSON_stringify H (cache w))")
     (simp_all add: saveCache_failed saveCache_ok notifyCacheUpdate_eq console_error_def)

lemma toasts_saveCache: "toasts (saveCache H w) = toasts w"
  by (cases "storage_denied H \<or> quota_exceeded H cacheKey (JSON_stringify H (cache w))")
     (simp_all add: saveCache_failed saveCache_ok notifyCacheUpdate_eq console_error_def)

lemma lonely_modules:
  "channelsModule lonely_host =
     Fulfilled (Some \<lparr>getPrivateChannels = Some (Inr []), openPrivateChannel = Some (\<lambda>u. Rejected)\<rparr>)"
  "messageModule lonely_host = Fulfilled (Some \<lparr>receiveMessage = Some (\<lambda>c m. Inr ())\<rparr>)"
  "userModule lonely_host = Fulfilled (Some \<lparr>getUser = Some (\<lambda>u. Inr None)\<rparr>)"
  by (simp_all add: lonely_host_def stub_host_def)

lemma refusing_modules:
  "channelsModule refusing_host =
     Fulfilled (Some \<lparr>getPrivateChannels = Some (Inr [(lit ''chan-1'', chan1)]),
                      openPrivateChannel = Some (\<lambda>u. Rejected)\<rparr>)"
  "messageModule refusing_host = Fulfilled (Some \<lparr>receiveMessage = Some (\<lambda>c m. Inl HostError)\<rparr>)"
  "userModule refusing_host = Fulfilled (Some \<lparr>getUser = Some (\<lambda>u. Inr None)\<rparr>)"
  by (simp_all add: refusing_host_def stub_host_def)

lemma find_chan1:
  "find_dm (lit ''111111111111111111'') (Object_values [(lit ''chan-1'', chan1)]) = Some chan1"
  by (simp add: Object_values_def chan1_fields recipientIds_def)

lemma dec_nat_example: "dec_nat 1700000000000 = lit ''1700000000000''"
  by (simp add: dec_nat.simps lit_def)

lemma hello_record_built:
  "Date_now_id H = 1700000000000 \<Longrightarrow> Math_random_36 H = lit ''0.4fzyo82mvyr'' \<Longrightarrow>
   Date_now_cache H = 1700000000123 \<Longrightarrow>
   cache_record H chan1 (lit ''111111111111111111'') (lit ''222222222222222222'') c e
     = hello_record\<lparr>content := c, embed := e\<rparr>"
  by (simp add: cache_record_def hello_record_def messageId_def Number_toString_def dec_nat_example
      slice_def chan1_fields lit_def)

lemma refusing_clock:
  "Date_now_id refusing_host = 1700000000000" "Math_random_36 refusing_host = lit ''0.4fzyo82mvyr''"
  "Date_now_cache refusing_host = 1700000000123"
  by (simp_all add: refusing_host_def stub_host_def)

lemma stub_clock:
  "Date_now_id stub_host = 1700000000000" "Math_random_36 stub_host = lit ''0.4fzyo82mvyr''"
  "Date_now_cache stub_host = 1700000000123"
  by (simp_all add: stub_host_def)

lemma build_message_no_embed:
  assumes "title e = None \<or> title e = Some []"
    and "description e = None \<or> description e = Some []"
    and "imageUrl e = None \<or> imageUrl e = Some []"
  shows "build_message H ch c u (Some e) = build_message H ch c u None"
  using assms by (auto simp: build_message_def truthy_opt_def truthy_def)

lemma embeds_build_message_None: "embeds (build_message H ch c u None) = []"
  by (simp add: build_message_def)

lemma injected_deliver:
  "injected (snd (deliver H rcv um t f c e ch w)) =
     injected w @
       (case lookup_user um f of
          Inl x \<Rightarrow> []
        | Inr u \<Rightarrow>
           (case cache w of
              JArr xs \<Rightarrow>
                (case rcv (id_ch ch) (build_message H ch c u e) of
                   Inl x \<Rightarrow> []
                 | Inr y \<Rightarrow> [(id_ch ch, build_message H ch c u e)])
            | _ \<Rightarrow> []))"
  by (simp add: deliver_def cache_append_def cache_push_def Let_def Toasts_show_def injected_saveCache
      split: sum.splits jsval.splits)

lemma fst_deliver:
  "fst (deliver H rcv um t f c e ch w) =
     (case lookup_user um f of
        Inl x \<Rightarrow> Throw x
      | Inr u \<Rightarrow>
         (case cache w of
            JArr xs \<Rightarrow>
              (case rcv (id_ch ch) (build_message H ch c u e) of
                 Inl x \<Rightarrow> Throw x
               | Inr y \<Rightarrow> Ok True)
          | _ \<Rightarrow> Throw TypeError))"
  by (simp add: deliver_def cache_append_def cache_push_def Let_def
      split: sum.splits jsval.splits)

lemma injected_sendFakeMessage:
  "injected (snd (sendFakeMessage H t f c e w)) =
     (if isValidSnowflake t \<and> isValidSnowflake f then injected (snd (send_body H t f c e w))
      else injected w)"
  by (auto simp: sendFakeMessage_def Toasts_show_def console_error_def split: prod.splits step.splits)

lemma fst_sendFakeMessage:
  "fst (sendFakeMessage H t f c e w) =
     (if isValidSnowflake t \<and> isValidSnowflake f
      then (case fst (send_body H t f c e w) of
              Suspend \<Rightarrow> Pending | Throw x \<Rightarrow> Fulfilled False | Ok b \<Rightarrow> Fulfilled b)
      else Fulfilled False)"
  by (auto simp: sendFakeMessage_def split: prod.splits step.splits)

lemma deliver_same_payload:
  assumes "\<And>u. build_message H ch c u e1 = build_message H ch c u e2"
  shows "injected (snd (deliver H rcv um t f c e1 ch w)) = injected (snd (deliver H rcv um t f c e2 ch w))"
    and "fst (deliver H rcv um t f c e1 ch w) = fst (deliver H rcv um t f c e2 ch w)"
  by (auto simp: injected_deliver fst_deliver assms split: sum.splits jsval.splits)

lemma send_body_same_payload:
  assumes "\<And>ch u. build_message H ch c u e1 = build_message H ch c u e2"
  shows "injected (snd (send_body H t f c e1 w)) = injected (snd (send_body H t f c e2 w))"
    and "fst (send_body H t f c e1 w) = fst (send_body H t f c e2 w)"
proof -
  have d: "injected (snd (deliver H rcv um t f c e1 ch w)) = injected (snd (deliver H rcv um t f c e2 ch w))"
    "fst (deliver H rcv um t f c e1 ch w) = fst (deliver H rcv um t f c e2 ch w)" for rcv um ch
    by (rule deliver_same_payload [OF assms])+
  show "injected (snd (send_body H t f c e1 w)) = injected (snd (send_body H t f c e2 w))"
    unfolding send_body_def
    by (simp add: d split: step.splits sum.splits option.splits promise.splits prod.splits)
  show "fst (send_body H t f c e1 w) = fst (send_body H t f c e2 w)"
    unfolding send_body_def
    by (simp add: d split: step.splits sum.splits option.splits promise.splits prod.splits)
qed

lemma new_payloads_deliver:
  "\<exists>ps. injected (snd (deliver H rcv um t f c e ch w)) = injected w @ ps
        \<and> (\<forall>p \<in> set ps. \<exists>u. snd p = build_message H ch c u e)"
  by (auto simp: injected_deliver split: sum.splits jsval.splits)

lemma new_payloads_send_body:
  "\<exists>ps. injected (snd (send_body H t f c e w)) = injected w @ ps
        \<and> (\<forall>p \<in> set ps. \<exists>ch u. snd p = build_message H ch c u e)"
proof -
  have d: "\<exists>ps. injected (snd (deliver H rcv um t f c e ch w)) = injected w @ ps
        \<and> (\<forall>p \<in> set ps. \<exists>ch u. snd p = build_message H ch c u e)" for rcv um ch
    using new_payloads_deliver [of H rcv um t f c e ch w] by blast
  show ?thesis
    unfolding send_body_def
    by (auto simp: d Toasts_show_def console_error_def
        split: step.splits sum.splits option.splits promise.splits)
qed

lemma stub_deliver_hello:
  assumes "cache w = JArr xs"
  shows "sendFakeMessage stub_host (lit ''111111111111111111'') (lit ''222222222222222222'') c e w =
     (Fulfilled True,
      Toasts_show
        \<lparr>message_t = lit ''Fake message sent to user '' @ lit ''111111111111111111'',
         type_t = SUCCESS, timeout = 3000\<rparr>
        ((saveCache stub_host (w\<lparr>cache := JArr (xs @ [JRec (hello_record\<lparr>content := c, embed := e\<rparr>)])\<rparr>))
           \<lparr>injected := injected w @
              [(lit ''chan-1'',
                build_message stub_host chan1 c
                  \<lparr>id_u = lit ''222222222222222222'', username = lit ''Unknown User'',
                   discriminator = lit ''0000'', avatar = None, bot_u = None\<rparr> e)]\<rparr>))"
proof -
  let ?u = "\<lparr>id_u = lit ''222222222222222222'', username = lit ''Unknown User'',
             discriminator = lit ''0000'', avatar = None, bot_u = None\<rparr>"
  have u: "lookup_user (Some \<lparr>getUser = Some (\<lambda>u. Inr None)\<rparr>) (lit ''222222222222222222'') = Inr ?u"
    by (simp add: lookup_user_def)
  have f: "find_dm (lit ''111111111111111111'') (Object_values [(lit ''chan-1'', chan1)]) = Some chan1
      \<or> (find_dm (lit ''111111111111111111'') (Object_values [(lit ''chan-1'', chan1)]) = None
          \<and> (\<lambda>u. Rejected) (lit ''111111111111111111'') = Fulfilled chan1)"
    by (simp add: find_chan1)
  show ?thesis
    by (simp add: sendFakeMessage_resolved [OF target_valid sender_valid stub_channels(1) _ _
          stub_channels(2) _ stub_channels(3) f]
        deliver_array [OF u assms] hello_record_built [OF stub_clock] chan1_fields injected_saveCache)
qed

lemma trim_empty_iff: "trim s = [] \<longleftrightarrow> list_all is_space s"
proof
  assume "trim s = []"
  then have a: "\<forall>x \<in> set (dropWhile is_space s). is_space x"
    by (simp add: trim_def dropWhile_eq_Nil_conv)
  show "list_all is_space s"
  proof (cases "dropWhile is_space s")
    case Nil
    then show ?thesis by (simp add: dropWhile_eq_Nil_conv list_all_iff)
  next
    case (Cons y ys)
    then have "\<not> is_space (hd (dropWhile is_space s))"
      by (metis hd_dropWhile list.distinct(1))
    with a Cons show ?thesis by simp
  qed
next
  assume "list_all is_space s"
  then show "trim s = []"
    by (auto simp: trim_def list_all_iff dest: set_dropWhileD)
qed

lemma validateForm_result:
  "fst (validateForm st) \<longleftrightarrow>
     isValidSnowflake (targetUserId_s st) \<and> isValidSnowflake (fromUserId_s st)
     \<and> \<not> list_all is_space (messageContent st)"
proof -
  have v: "isValidSnowflake s \<Longrightarrow> truthy s" for s
    by (auto simp: isValidSnowflake_def test_snowflake_iff truthy_def)
  have t: "truthy (trim s) \<longleftrightarrow> \<not> list_all is_space s" for s
    by (simp add: truthy_def trim_empty_iff)
  show ?thesis
    using v [of "targetUserId_s st"] v [of "fromUserId_s st"]
    by (auto simp: validateForm_def finalErrors_def Let_def t isValidSnowflake_def)
qed

text \<open>
  Claim C1. The compose flow is called with the target \<open>111111111111111111\<close>, the sender
  \<open>222222222222222222\<close>, the content \<open>hello\<close> and no embed, on a host where the three
  modules resolve with the functions the flow asks for, the sender lookup does not
  throw, the channel map holds a channel with the target among its recipients, every
  channel with the target among its recipients has the id \<open>chan-1\<close>, and
  \<open>receiveMessage\<close> accepts what it is given for \<open>chan-1\<close>; the cache is a sequence. Then
  the call returns true, and the cache is the old sequence followed by exactly one
  new record, whose \<open>channelId\<close> is \<open>chan-1\<close>, whose \<open>content\<close> is \<open>hello\<close> and whose \<open>embed\<close>
  is \<open>undefined\<close>.
\<close>

theorem send_hello:
  assumes "channelsModule H = Fulfilled (Some chm)"
    and "getPrivateChannels chm = Some (Inr chans)"
    and "openPrivateChannel chm = Some opn"
    and "messageModule H = Fulfilled (Some mm)"
    and "receiveMessage mm = Some rcv"
    and "userModule H = Fulfilled um"
    and "\<exists>u. lookup_user um (lit ''222222222222222222'') = Inr u"
    and "c1 \<in> set (Object_values chans)"
    and "recipients c1 = Some rv"
    and "lit ''111111111111111111'' \<in> set (recipientIds rv)"
    and "\<forall>c \<in> set (Object_values chans). \<forall>rv'. recipients c = Some rv'
           \<and> lit ''111111111111111111'' \<in> set (recipientIds rv') \<longrightarrow> id_ch c = lit ''chan-1''"
    and "\<forall>m. rcv (lit ''chan-1'') m = Inr ()"
    and "cache w = JArr xs"
  shows "\<exists>w' r. sendFakeMessage H (lit ''111111111111111111'') (lit ''222222222222222222'')
                    (lit ''hello'') None w = (Fulfilled True, w')
           \<and> cache w' = JArr (xs @ [JRec r])
           \<and> channelId r = lit ''chan-1''
           \<and> content r = lit ''hello''
           \<and> embed r = None"
proof -
  let ?t = "lit ''111111111111111111''" and ?f = "lit ''222222222222222222''"
  from find_dm_first [OF assms(8-10)] obtain ch where ch: "find_dm ?t (Object_values chans) = Some ch"
    by blast
  from find_dm_Some [OF ch] assms(11) have cid: "id_ch ch = lit ''chan-1''"
    by blast
  from assms(7) obtain u where u: "lookup_user um ?f = Inr u"
    by blast
  let ?r = "cache_record H ch ?t ?f (lit ''hello'') None"
  let ?w2 = "saveCache H (w\<lparr>cache := JArr (xs @ [JRec ?r])\<rparr>)"
  let ?w' = "Toasts_show \<lparr>message_t = lit ''Fake message sent to user '' @ ?t, type_t = SUCCESS, timeout = 3000\<rparr>
             (?w2\<lparr>injected := injected ?w2 @ [(id_ch ch, build_message H ch (lit ''hello'') u None)]\<rparr>)"
  have d: "deliver H rcv um ?t ?f (lit ''hello'') None ch w = (Ok True, ?w')"
    using assms(12) cid by (simp add: deliver_array [OF u assms(13)])
  have s: "sendFakeMessage H ?t ?f (lit ''hello'') None w = (Fulfilled True, ?w')"
    using ch by (simp add: sendFakeMessage_resolved [OF target_valid sender_valid assms(1-6)] d)
  have c: "cache ?w' = JArr (xs @ [JRec ?r])"
    by (simp add: Toasts_show_def cache_saveCache)
  have "channelId ?r = lit ''chan-1''" "content ?r = lit ''hello''" "embed ?r = None"
    by (simp_all add: cache_record_def cid)
  with s c show ?thesis by blast
qed

theorem send_hello_witness:
  "channelsModule stub_host =
     Fulfilled (Some \<lparr>getPrivateChannels = Some (Inr [(lit ''chan-1'', chan1)]),
                      openPrivateChannel = Some (\<lambda>u. Rejected)\<rparr>)
   \<and> messageModule stub_host = Fulfilled (Some \<lparr>receiveMessage = Some (\<lambda>c m. Inr ())\<rparr>)
   \<and> userModule stub_host = Fulfilled (Some \<lparr>getUser = Some (\<lambda>u. Inr None)\<rparr>)
   \<and> chan1 \<in> set (Object_values [(lit ''chan-1'', chan1)])
   \<and> recipients chan1 = Some (RArray [RString (lit ''111111111111111111'')])
   \<and> lit ''111111111111111111'' \<in> set (recipientIds (RArray [RString (lit ''111111111111111111'')]))
   \<and> cache initial = JArr []
   \<and> (\<exists>w' r. sendFakeMessage stub_host (lit ''111111111111111111'') (lit ''222222222222222222'')
                    (lit ''hello'') None initial = (Fulfilled True, w')
           \<and> cache w' = JArr ([] @ [JRec r])
           \<and> channelId r = lit ''chan-1''
           \<and> content r = lit ''hello''
           \<and> embed r = None)"
proof -
  have u: "\<exists>u. lookup_user (Some \<lparr>getUser = Some (\<lambda>u. Inr None)\<rparr>) (lit ''222222222222222222'') = Inr u"
    by (simp add: lookup_user_def)
  have a: "chan1 \<in> set (Object_values [(lit ''chan-1'', chan1)])"
    by (simp add: Object_values_def)
  have b: "lit ''111111111111111111'' \<in> set (recipientIds (RArray [RString (lit ''111111111111111111'')]))"
    by (simp add: recipientIds_def)
  have c: "\<forall>c \<in> set (Object_values [(lit ''chan-1'', chan1)]). \<forall>rv'. recipients c = Some rv'
           \<and> lit ''111111111111111111'' \<in> set (recipientIds rv') \<longrightarrow> id_ch c = lit ''chan-1''"
    by (simp add: Object_values_def chan1_fields)
  have d: "\<forall>m. (\<lambda>c m. Inr ()) (lit ''chan-1'') m = (Inr () :: error + unit)"
    by simp
  have e: "cache initial = JArr []"
    by (simp add: initial_def)
  note T = send_hello [OF stub_channels(1) _ _ stub_channels(2) _ stub_channels(3) u a chan1_fields(2) b c d e]
  from T have "\<exists>w' r. sendFakeMessage stub_host (lit ''111111111111111111'') (lit ''222222222222222222'')
                    (lit ''hello'') None initial = (Fulfilled True, w')
           \<and> cache w' = JArr ([] @ [JRec r])
           \<and> channelId r = lit ''chan-1''
           \<and> content r = lit ''hello''
           \<and> embed r = None"
    by simp
  with stub_channels a chan1_fields(2) b e show ?thesis by blast
qed

text \<open>
  Claim C6. When the flow gets as far as the channel lookup (both identifiers are
  valid and the modules resolve), no channel of the map has the target among its
  recipients and the promise of \<open>openPrivateChannel\<close> is rejected, \<open>sendFakeMessage\<close>
  returns false, the cache and the persisted slot are as before, nothing is injected,
  and exactly one toast is shown, a failure.
\<close>

theorem channel_open_rejected:
  assumes "isValidSnowflake t" and "isValidSnowflake f"
    and "channelsModule H = Fulfilled (Some chm)"
    and "getPrivateChannels chm = Some (Inr chans)"
    and "openPrivateChannel chm = Some opn"
    and "messageModule H = Fulfilled (Some mm)"
    and "receiveMessage mm = Some rcv"
    and "userModule H = Fulfilled um"
    and "\<forall>ch \<in> set (Object_values chans). \<forall>rv. recipients ch = Some rv \<longrightarrow> t \<notin> set (recipientIds rv)"
    and "opn t = Rejected"
  shows "fst (sendFakeMessage H t f c e w) = Fulfilled False
     \<and> cache (snd (sendFakeMessage H t f c e w)) = cache w
     \<and> localStorage (snd (sendFakeMessage H t f c e w)) = localStorage w
     \<and> toasts (snd (sendFakeMessage H t f c e w)) =
         toasts w @ [\<lparr>message_t = lit ''Failed to create DM channel with target user'',
                      type_t = FAILURE, timeout = 3000\<rparr>]
     \<and> injected (snd (sendFakeMessage H t f c e w)) = injected w"
proof -
  have r: "resolve_modules H = Ok (Inr chans, opn, rcv, um)"
    using assms(3-8) by (rule resolve_modules_ok)
  have n: "find_dm t (Object_values chans) = None"
    using assms(9) by (simp add: find_dm_None_iff)
  have "send_body H t f c e w =
      (Ok False,
       Toasts_show \<lparr>message_t = lit ''Failed to create DM channel with target user'',
                    type_t = FAILURE, timeout = 3000\<rparr>
         (console_error (lit ''Failed to create DM channel:'') w))"
    by (simp add: send_body_def r n assms(10))
  with assms(1,2) show ?thesis
    by (simp add: sendFakeMessage_def Toasts_show_def console_error_def)
qed

theorem channel_open_rejected_witness:
  "isValidSnowflake (lit ''111111111111111111'')
   \<and> isValidSnowflake (lit ''222222222222222222'')
   \<and> channelsModule lonely_host =
       Fulfilled (Some \<lparr>getPrivateChannels = Some (Inr []), openPrivateChannel = Some (\<lambda>u. Rejected)\<rparr>)
   \<and> messageModule lonely_host = Fulfilled (Some \<lparr>receiveMessage = Some (\<lambda>c m. Inr ())\<rparr>)
   \<and> userModule lonely_host = Fulfilled (Some \<lparr>getUser = Some (\<lambda>u. Inr None)\<rparr>)
   \<and> fst (sendFakeMessage lonely_host (lit ''111111111111111111'') (lit ''222222222222222222'')
            (lit ''hello'') None initial) = Fulfilled False
   \<and> cache (snd (sendFakeMessage lonely_host (lit ''111111111111111111'') (lit ''222222222222222222'')
            (lit ''hello'') None initial)) = JArr []
   \<and> toasts (snd (sendFakeMessage lonely_host (lit ''111111111111111111'') (lit ''222222222222222222'')
            (lit ''hello'') None initial)) =
         [\<lparr>message_t = lit ''Failed to create DM channel with target user'',
           type_t = FAILURE, timeout = 3000\<rparr>]"
proof -
  have a: "\<forall>ch \<in> set (Object_values ([] :: (jsstring \<times> DiscordChannel) list)). \<forall>rv. recipients ch = Some rv
             \<longrightarrow> lit ''111111111111111111'' \<notin> set (recipientIds rv)"
    by (simp add: Object_values_def)
  have b: "(\<lambda>u. Rejected) (lit ''111111111111111111'') = (Rejected :: DiscordChannel promise)"
    by simp
  note T = channel_open_rejected [OF target_valid sender_valid lonely_modules(1) _ _ lonely_modules(2) _
      lonely_modules(3) a b, of _ "lit ''hello''" None initial]
  from T have "fst (sendFakeMessage lonely_host (lit ''111111111111111111'') (lit ''222222222222222222'')
            (lit ''hello'') None initial) = Fulfilled False
   \<and> cache (snd (sendFakeMessage lonely_host (lit ''111111111111111111'') (lit ''222222222222222222'')
            (lit ''hello'') None initial)) = JArr []
   \<and> toasts (snd (sendFakeMessage lonely_host (lit ''111111111111111111'') (lit ''222222222222222222'')
            (lit ''hello'') None initial)) =
         [\<lparr>message_t = lit ''Failed to create DM channel with target user'',
           type_t = FAILURE, timeout = 3000\<rparr>]"
    by (simp add: initial_def)
  with target_valid sender_valid lonely_modules show ?thesis by blast
qed

text \<open>
  Claim C7. When both identifiers are valid, the modules resolve, the channel is
  found or opened, the sender lookup returns and the cache is a sequence, but
  \<open>receiveMessage\<close> throws on the payload, the call returns false with exactly one
  toast, a failure, and nothing is logged as injected; yet the cache ends with the
  record built for this call, and the slot holds that cache when the write went
  through: the record was pushed and saved before the hand-off, and the handler
  does not take it back.
\<close>

theorem injection_failure_keeps_record:
  assumes "isValidSnowflake t" and "isValidSnowflake f"
    and "channelsModule H = Fulfilled (Some chm)"
    and "getPrivateChannels chm = Some (Inr chans)"
    and "openPrivateChannel chm = Some opn"
    and "messageModule H = Fulfilled (Some mm)"
    and "receiveMessage mm = Some rcv"
    and "userModule H = Fulfilled um"
    and "find_dm t (Object_values chans) = Some ch
         \<or> (find_dm t (Object_values chans) = None \<and> opn t = Fulfilled ch)"
    and "lookup_user um f = Inr u"
    and "cache w = JArr xs"
    and "rcv (id_ch ch) (build_message H ch c u e) = Inl x"
  shows "fst (sendFakeMessage H t f c e w) = Fulfilled False
     \<and> cache (snd (sendFakeMessage H t f c e w)) = JArr (xs @ [JRec (cache_record H ch t f c e)])
     \<and> toasts (snd (sendFakeMessage H t f c e w)) =
         toasts w @ [\<lparr>message_t = lit ''Failed to send fake message'', type_t = FAILURE, timeout = 3000\<rparr>]
     \<and> injected (snd (sendFakeMessage H t f c e w)) = injected w
     \<and> (\<not> storage_denied H
          \<and> \<not> quota_exceeded H cacheKey (JSON_stringify H (JArr (xs @ [JRec (cache_record H ch t f c e)])))
        \<longrightarrow> localStorage (snd (sendFakeMessage H t f c e w)) cacheKey
              = Some (JSON_stringify H (JArr (xs @ [JRec (cache_record H ch t f c e)]))))"
proof -
  let ?w2 = "saveCache H (w\<lparr>cache := JArr (xs @ [JRec (cache_record H ch t f c e)])\<rparr>)"
  have d: "deliver H rcv um t f c e ch w = (Throw x, ?w2)"
    by (simp add: deliver_array [OF assms(10,11)] assms(12))
  have s: "sendFakeMessage H t f c e w =
      (Fulfilled False,
       Toasts_show \<lparr>message_t = lit ''Failed to send fake message'', type_t = FAILURE, timeout = 3000\<rparr>
         (console_error (lit ''Error sending fake message:'') ?w2))"
    by (simp add: sendFakeMessage_resolved [OF assms(1-9)] d)
  have l: "localStorage ?w2 cacheKey = Some (JSON_stringify H (JArr (xs @ [JRec (cache_record H ch t f c e)])))"
    if "\<not> storage_denied H
          \<and> \<not> quota_exceeded H cacheKey (JSON_stringify H (JArr (xs @ [JRec (cache_record H ch t f c e)])))"
    using that by (simp add: saveCache_ok notifyCacheUpdate_eq)
  show ?thesis
    by (simp add: s Toasts_show_def console_error_def cache_saveCache toasts_saveCache injected_saveCache l)
qed

theorem injection_failure_keeps_record_witness:
  "isValidSnowflake (lit ''111111111111111111'')
   \<and> isValidSnowflake (lit ''222222222222222222'')
   \<and> channelsModule refusing_host =
       Fulfilled (Some \<lparr>getPrivateChannels = Some (Inr [(lit ''chan-1'', chan1)]),
                        openPrivateChannel = Some (\<lambda>u. Rejected)\<rparr>)
   \<and> messageModule refusing_host = Fulfilled (Some \<lparr>receiveMessage = Some (\<lambda>c m. Inl HostError)\<rparr>)
   \<and> userModule refusing_host = Fulfilled (Some \<lparr>getUser = Some (\<lambda>u. Inr None)\<rparr>)
   \<and> find_dm (lit ''111111111111111111'') (Object_values [(lit ''chan-1'', chan1)]) = Some chan1
   \<and> cache initial = JArr []
   \<and> fst (sendFakeMessage refusing_host (lit ''111111111111111111'') (lit ''222222222222222222'')
            (lit ''hello'') None initial) = Fulfilled False
   \<and> cache (snd (sendFakeMessage refusing_host (lit ''111111111111111111'') (lit ''222222222222222222'')
            (lit ''hello'') None initial)) = JArr [JRec hello_record]
   \<and> toasts (snd (sendFakeMessage refusing_host (lit ''111111111111111111'') (lit ''222222222222222222'')
            (lit ''hello'') None initial)) =
        [\<lparr>message_t = lit ''Failed to send fake message'', type_t = FAILURE, timeout = 3000\<rparr>]
   \<and> injected (snd (sendFakeMessage refusing_host (lit ''111111111111111111'') (lit ''222222222222222222'')
            (lit ''hello'') None initial)) = []"
proof -
  let ?u = "\<lparr>id_u = lit ''222222222222222222'', username = lit ''Unknown User'',
             discriminator = lit ''0000'', avatar = None, bot_u = None\<rparr>"
  have u: "lookup_user (Some \<lparr>getUser = Some (\<lambda>u. Inr None)\<rparr>) (lit ''222222222222222222'') = Inr ?u"
    by (simp add: lookup_user_def)
  have e: "cache initial = JArr []"
    by (simp add: initial_def)
  have x: "(\<lambda>c m. Inl HostError) (id_ch chan1)
             (build_message refusing_host chan1 (lit ''hello'') ?u None) = (Inl HostError :: error + unit)"
    by simp
  have f: "find_dm (lit ''111111111111111111'') (Object_values [(lit ''chan-1'', chan1)]) = Some chan1
      \<or> (find_dm (lit ''111111111111111111'') (Object_values [(lit ''chan-1'', chan1)]) = None
          \<and> (\<lambda>u. Rejected) (lit ''111111111111111111'') = Fulfilled chan1)"
    by (simp add: find_chan1)
  have r: "cache_record refusing_host chan1 (lit ''111111111111111111'') (lit ''222222222222222222'')
             (lit ''hello'') None = hello_record"
    by (simp add: hello_record_built [OF refusing_clock] hello_record_def)
  note T = injection_failure_keeps_record [OF target_valid sender_valid refusing_modules(1) _ _
      refusing_modules(2) _ refusing_modules(3) f u e x]
  from T have "fst (sendFakeMessage refusing_host (lit ''111111111111111111'') (lit ''222222222222222222'')
            (lit ''hello'') None initial) = Fulfilled False
   \<and> cache (snd (sendFakeMessage refusing_host (lit ''111111111111111111'') (lit ''222222222222222222'')
            (lit ''hello'') None initial)) = JArr [JRec hello_record]
   \<and> toasts (snd (sendFakeMessage refusing_host (lit ''111111111111111111'') (lit ''222222222222222222'')
            (lit ''hello'') None initial)) =
        [\<lparr>message_t = lit ''Failed to send fake message'', type_t = FAILURE, timeout = 3000\<rparr>]
   \<and> injected (snd (sendFakeMessage refusing_host (lit ''111111111111111111'') (lit ''222222222222222222'')
            (lit ''hello'') None initial)) = []"
    by (simp add: r initial_def)
  with target_valid sender_valid refusing_modules find_chan1 e show ?thesis by blast
qed

text \<open>
  Claim C8, as amended. For every call of the compose flow with an embed object
  whose \<open>title\<close>, \<open>description\<close> and \<open>imageUrl\<close> are each absent or the empty string, the
  payload is the one built with no embed at all: its \<open>embeds\<close> list is empty, the call
  has the same result, and what is handed to \<open>receiveMessage\<close> is the same as if no
  embed had been passed.
\<close>

theorem empty_embed_is_no_embed:
  assumes "title e = None \<or> title e = Some []"
    and "description e = None \<or> description e = Some []"
    and "imageUrl e = None \<or> imageUrl e = Some []"
  shows "build_message H ch c u (Some e) = build_message H ch c u None
     \<and> embeds (build_message H ch c u (Some e)) = []
     \<and> fst (sendFakeMessage H t f c (Some e) w) = fst (sendFakeMessage H t f c None w)
     \<and> injected (snd (sendFakeMessage H t f c (Some e) w)) = injected (snd (sendFakeMessage H t f c None w))
     \<and> (\<forall>p \<in> set (drop (length (injected w)) (injected (snd (sendFakeMessage H t f c (Some e) w)))).
          embeds (snd p) = [])"
proof -
  have b: "build_message H ch' c u' (Some e) = build_message H ch' c u' None" for ch' u'
    using assms by (rule build_message_no_embed)
  have e0: "embeds (build_message H ch' c u' (Some e)) = []" for ch' u'
    by (simp add: b embeds_build_message_None)
  have i: "injected (snd (sendFakeMessage H t f c (Some e) w)) = injected (snd (sendFakeMessage H t f c None w))"
    by (simp add: injected_sendFakeMessage send_body_same_payload(1) [where ?e1.0 = "Some e" and ?e2.0 = None, OF b])
  have r: "fst (sendFakeMessage H t f c (Some e) w) = fst (sendFakeMessage H t f c None w)"
    by (simp add: fst_sendFakeMessage send_body_same_payload(2) [where ?e1.0 = "Some e" and ?e2.0 = None, OF b])
  obtain ps where ps: "injected (snd (send_body H t f c (Some e) w)) = injected w @ ps"
    and all: "\<forall>p \<in> set ps. \<exists>ch u. snd p = build_message H ch c u (Some e)"
    using new_payloads_send_body [of H t f c "Some e" w] by blast
  have n: "\<forall>p \<in> set (drop (length (injected w)) (injected (snd (sendFakeMessage H t f c (Some e) w)))).
          embeds (snd p) = []"
    using all e0 by (auto simp: injected_sendFakeMessage ps)
  from b e0 r i n show ?thesis by blast
qed

theorem empty_embed_is_no_embed_witness:
  "title empty_embed = Some []
   \<and> description empty_embed = Some []
   \<and> imageUrl empty_embed = Some []
   \<and> injected (snd (sendFakeMessage stub_host (lit ''111111111111111111'') (lit ''222222222222222222'')
         (lit ''hello'') (Some empty_embed) initial))
      = injected (snd (sendFakeMessage stub_host (lit ''111111111111111111'') (lit ''222222222222222222'')
         (lit ''hello'') None initial))
   \<and> map (length \<circ> embeds \<circ> snd)
        (injected (snd (sendFakeMessage stub_host (lit ''111111111111111111'') (lit ''222222222222222222'')
           (lit ''hello'') (Some empty_embed) initial))) = [0]"
proof -
  have h: "title empty_embed = None \<or> title empty_embed = Some []"
    "description empty_embed = None \<or> description empty_embed = Some []"
    "imageUrl empty_embed = None \<or> imageUrl empty_embed = Some []"
    by (simp_all add: empty_embed_def)
  note T = empty_embed_is_no_embed [OF h, of stub_host chan1 "lit ''hello''" _
      "lit ''111111111111111111''" "lit ''222222222222222222''" initial]
  have c: "cache initial = JArr []" "injected initial = []"
    by (simp_all add: initial_def)
  from T have i: "injected (snd (sendFakeMessage stub_host (lit ''111111111111111111'') (lit ''222222222222222222'')
         (lit ''hello'') (Some empty_embed) initial))
      = injected (snd (sendFakeMessage stub_host (lit ''111111111111111111'') (lit ''222222222222222222'')
         (lit ''hello'') None initial))"
    by blast
  have "map (length \<circ> embeds \<circ> snd)
        (injected (snd (sendFakeMessage stub_host (lit ''111111111111111111'') (lit ''222222222222222222'')
           (lit ''hello'') None initial))) = [0]"
    by (simp add: stub_deliver_hello [OF c(1)] Toasts_show_def c(2) embeds_build_message_None)
  with i show ?thesis by (simp add: empty_embed_def)
qed

text \<open>
  Claim C8 as stated fails for whitespace: the source tests the three fields for
  truthiness and never trims them, so an embed whose title is a single space is
  attached to the payload.
\<close>

theorem whitespace_embed_counterexample:
  "map (length \<circ> embeds \<circ> snd)
     (injected (snd (sendFakeMessage stub_host (lit ''111111111111111111'') (lit ''222222222222222222'')
        (lit ''hello'') (Some spaced_embed) initial))) = [1]"
proof -
  have c: "cache initial = JArr []" "injected initial = []"
    by (simp_all add: initial_def)
  show ?thesis
    unfolding stub_deliver_hello [OF c(1)]
    by (simp add: Toasts_show_def c(2) build_message_def spaced_embed_def
        truthy_opt_def truthy_def lit_def)
qed

text \<open>
  Claim C9, as amended. Content validation is a hard gate of the modal's submit
  handler: \<open>validateForm\<close> holds exactly when both identifiers match the pattern and
  the content is neither empty nor whitespace only, and for every form whose content
  is empty or whitespace only, whatever its other fields, \<open>handleSend\<close> returns
  without calling \<open>sendFakeMessage\<close> (the world is untouched) and the form carries the
  content error.
\<close>

theorem blank_content_stops_handleSend:
  "(fst (validateForm st) \<longleftrightarrow>
      isValidSnowflake (targetUserId_s st) \<and> isValidSnowflake (fromUserId_s st)
      \<and> \<not> list_all is_space (messageContent st))
   \<and> (list_all is_space (messageContent st) \<longrightarrow>
        handleSend H st w = (Fulfilled (), snd (validateForm st), w)
        \<and> err_messageContent (errors (snd (validateForm st))) = Some (lit ''Message content is required''))"
proof (intro conjI impI)
  show "fst (validateForm st) \<longleftrightarrow>
      isValidSnowflake (targetUserId_s st) \<and> isValidSnowflake (fromUserId_s st)
      \<and> \<not> list_all is_space (messageContent st)"
    by (rule validateForm_result)
next
  assume b: "list_all is_space (messageContent st)"
  then have n: "\<not> fst (validateForm st)"
    by (simp add: validateForm_result)
  obtain ok st1 where v: "validateForm st = (ok, st1)"
    by (cases "validateForm st")
  with n have "\<not> ok" by simp
  with v show "handleSend H st w = (Fulfilled (), snd (validateForm st), w)"
    by (simp add: handleSend_def)
  from b have "err_messageContent (finalErrors st) = Some (lit ''Message content is required'')"
    by (simp add: finalErrors_def truthy_def trim_empty_iff)
  then show "err_messageContent (errors (snd (validateForm st))) = Some (lit ''Message content is required'')"
    by (auto simp: validateForm_def Let_def)
qed

theorem blank_content_stops_handleSend_witness:
  "list_all is_space (messageContent spaces_form)
   \<and> isValidSnowflake (targetUserId_s spaces_form)
   \<and> isValidSnowflake (fromUserId_s spaces_form)
   \<and> \<not> fst (validateForm spaces_form)
   \<and> fst (handleSend stub_host spaces_form initial) = Fulfilled ()
   \<and> snd (snd (handleSend stub_host spaces_form initial)) = initial"
proof -
  have b: "list_all is_space (messageContent spaces_form)"
    by (simp add: spaces_form_def lit_def is_space_def)
  have v: "isValidSnowflake (targetUserId_s spaces_form)" "isValidSnowflake (fromUserId_s spaces_form)"
    by (simp_all add: spaces_form_def target_valid sender_valid)
  note T = blank_content_stops_handleSend [of spaces_form stub_host initial]
  from T b have n: "\<not> fst (validateForm spaces_form)"
    by blast
  from T b have h: "handleSend stub_host spaces_form initial = (Fulfilled (), snd (validateForm spaces_form), initial)"
    by blast
  from b v n h show ?thesis by simp
qed

text \<open>
  Claim C9 as stated fails: \<open>sendFakeMessage\<close> checks the two identifiers and never
  looks at the content, so a call with empty content is sent and cached like any
  other.
\<close>

theorem blank_content_sent_counterexample:
  "fst (sendFakeMessage stub_host (lit ''111111111111111111'') (lit ''222222222222222222'') [] None initial)
     = Fulfilled True
   \<and> cache (snd (sendFakeMessage stub_host (lit ''111111111111111111'') (lit ''222222222222222222'') [] None initial))
     = JArr [JRec blank_record]"
proof -
  have c: "cache initial = JArr []"
    by (simp add: initial_def)
  show ?thesis
    unfolding stub_deliver_hello [OF c]
    by (simp add: Toasts_show_def cache_saveCache blank_record_def hello_record_def)
qed

end
